theory Spec2Isabelle
  imports Complex_Main "HOL-Library.Multiset"
begin

section \<open>Values of the JavaScript runtime\<close>

text \<open>
  The backend is an Express application over Mongoose models. A handler reads the fields
  of the JSON request body as JavaScript values and tests them with \<open>!\<close>. Numbers are
  taken as exact rationals: the rounding of IEEE doubles is outside this development.
  Instants are integers, the milliseconds since the epoch that a \<open>Date\<close> holds.
\<close>

type_synonym objectId = nat
type_synonym millis = int

datatype jsval = JUndefined | JNull | JBool bool | JNum rat | JStr string | JObject

text \<open>The operand test of \<open>!v\<close> and \<open>v || w\<close>.\<close>

fun truthy :: "jsval \<Rightarrow> bool" where
  "truthy JUndefined = False"
| "truthy JNull = False"
| "truthy (JBool b) = b"
| "truthy (JNum n) = (n \<noteq> 0)"
| "truthy (JStr s) = (s \<noteq> [])"
| "truthy JObject = True"

datatype jsdate = ValidDate millis | InvalidDate

text \<open>
  The conversions that the language and Mongoose supply and the repository only calls:
  \<open>new Date(v)\<close>, the casts of the schema types \<open>String\<close> and \<open>Number\<close> on values
  of another type, and the cast of a string to an \<open>ObjectId\<close> (\<open>None\<close> is a cast
  error). They are parameters of the model.
\<close>

record lib =
  newDate :: "jsval \<Rightarrow> jsdate"
  castString :: "jsval \<Rightarrow> string option"
  castNumber :: "jsval \<Rightarrow> rat option"
  castObjectId :: "string \<Rightarrow> objectId option"

section \<open>Documents and collections\<close>

text \<open>
  \<open>IncomeSchema\<close> and \<open>ExpenseSchema\<close> have the fields \<open>userId\<close>, \<open>icon\<close>,
  \<open>amount\<close>, \<open>date\<close> and the timestamps in common; \<open>oid\<close> is the document's
  \<open>_id\<close>. An income adds \<open>source\<close>, an expense adds \<open>category\<close>.
\<close>

record doc =
  oid :: objectId
  userId :: objectId
  icon :: "string option"
  amount :: rat
  date :: millis
  createdAt :: millis
  updatedAt :: millis

record income = doc +
  source :: string

record expense = doc +
  category :: string

text \<open>The database: the two collections, each in insertion order.\<close>

record db =
  incomes :: "income list"
  expenses :: "expense list"

section \<open>Requests and responses\<close>

record reqbody =
  b_icon :: jsval
  b_label :: jsval
  b_amount :: jsval
  b_date :: jsval

text \<open>
  \<open>user\<close> is \<open>req.user.id\<close>, set by the \<open>protect\<close> middleware; \<open>params_id\<close> is
  \<open>req.params.id\<close>, the path segment as the client sent it; \<open>body\<close> is \<open>req.body\<close>,
  whose field \<open>b_label\<close> is \<open>source\<close> for an income and \<open>category\<close> for an expense.
\<close>

record request =
  user :: objectId
  params_id :: string
  body :: reqbody

text \<open>\<open>res.status(n).json(v)\<close> and \<open>res.status(n).json({ message: m })\<close>.\<close>

datatype 'a response = Json nat 'a | Message nat string

fun json_body :: "'a response \<Rightarrow> 'a option" where
  "json_body (Json n v) = Some v"
| "json_body (Message n m) = None"

section \<open>Queries\<close>

text \<open>\<open>Model.find({ userId })\<close>.\<close>

definition find_userId :: "objectId \<Rightarrow> 'a doc_scheme list \<Rightarrow> 'a doc_scheme list" where
  "find_userId u xs = filter (\<lambda>d. userId d = u) xs"

text \<open>\<open>Model.find({ userId, date: { $gte: c } })\<close>.\<close>

definition find_userId_gte :: "objectId \<Rightarrow> millis \<Rightarrow> 'a doc_scheme list \<Rightarrow> 'a doc_scheme list" where
  "find_userId_gte u c xs = filter (\<lambda>d. userId d = u \<and> c \<le> date d) xs"

text \<open>
  \<open>.sort({ date: -1 })\<close>: newest first. MongoDB leaves the order of equal dates open;
  here they keep the order of the collection.
\<close>

definition sort_date_desc :: "'a doc_scheme list \<Rightarrow> 'a doc_scheme list" where
  "sort_date_desc xs = sort_key (\<lambda>d. - date d) xs"

text \<open>\<open>.limit(n)\<close>.\<close>

definition limit :: "nat \<Rightarrow> 'a list \<Rightarrow> 'a list" where
  "limit n xs = take n xs"

text \<open>
  The pipeline \<open>[{ $match: { userId } }, { $group: { _id: null, total: { $sum: "$amount" } } }]\<close>:
  no row when nothing matches, one row with the sum otherwise.
\<close>

definition aggregate_total :: "objectId \<Rightarrow> 'a doc_scheme list \<Rightarrow> rat list" where
  "aggregate_total u xs =
     (case find_userId u xs of [] \<Rightarrow> [] | d # ds \<Rightarrow> [sum_list (map amount (d # ds))])"

text \<open>\<open>rows[0]?.total || 0\<close>.\<close>

definition first_total_or_0 :: "rat list \<Rightarrow> rat" where
  "first_total_or_0 rows =
     (case rows of [] \<Rightarrow> 0 | t # _ \<Rightarrow> if truthy (JNum t) then t else 0)"

text \<open>\<open>xs.reduce((sum, transaction) => sum + transaction.amount, 0)\<close>.\<close>

definition reduce_amount :: "'a doc_scheme list \<Rightarrow> rat" where
  "reduce_amount xs = foldl (\<lambda>sum transaction. sum + amount transaction) 0 xs"


section \<open>Array.prototype.sort\<close>

text \<open>
  \<open>xs.sort(cmp)\<close> is stable: an element moves in front of another only when the
  comparator is positive for the pair in their current order.
\<close>

fun js_insert :: "('a \<Rightarrow> 'a \<Rightarrow> int) \<Rightarrow> 'a \<Rightarrow> 'a list \<Rightarrow> 'a list" where
  "js_insert cmp x [] = [x]"
| "js_insert cmp x (y # ys) =
     (if cmp x y \<le> 0 then x # y # ys else y # js_insert cmp x ys)"

definition js_sort :: "('a \<Rightarrow> 'a \<Rightarrow> int) \<Rightarrow> 'a list \<Rightarrow> 'a list" where
  "js_sort cmp xs = foldr (js_insert cmp) xs []"

section \<open>The dashboard controller\<close>

text \<open>\<open>{ ...txn.toObject(), type: "income" }\<close> and \<open>{ ...txn.toObject(), type: "expense" }\<close>.\<close>

datatype txn = IncomeTxn income | ExpenseTxn expense

fun txn_type :: "txn \<Rightarrow> string" where
  "txn_type (IncomeTxn i) = ''income''"
| "txn_type (ExpenseTxn e) = ''expense''"

fun txn_date :: "txn \<Rightarrow> millis" where
  "txn_date (IncomeTxn i) = date i"
| "txn_date (ExpenseTxn e) = date e"

text \<open>The comparator \<open>(a, b) => b.date - a.date\<close>.\<close>

definition by_date_desc :: "txn \<Rightarrow> txn \<Rightarrow> int" where
  "by_date_desc a b = txn_date b - txn_date a"

record 'a window =
  total :: rat
  transactions :: "'a list"

record summary =
  totalBalance :: rat
  totalIncome :: rat
  totalExpenses :: rat
  last30DaysExpenses :: "expense window"
  last60DaysIncome :: "income window"
  recentTransactions :: "txn list"

definition days :: "int \<Rightarrow> millis" where
  "days n = n * 24 * 60 * 60 * 1000"

text \<open>
  \<open>getDashboardData\<close> reads \<open>Date.now()\<close> twice: \<open>now60\<close> is the reading in the
  income query, \<open>now30\<close> the one in the expense query. It writes nothing.
\<close>

definition getDashboardData :: "millis \<Rightarrow> millis \<Rightarrow> request \<Rightarrow> db \<Rightarrow> summary response \<times> db" where
  "getDashboardData now60 now30 req d =
     (let uid = user req;
          totalIncomeRows = aggregate_total uid (incomes d);
          totalExpenseRows = aggregate_total uid (expenses d);
          last60DaysIncomeTransactions =
            sort_date_desc (find_userId_gte uid (now60 - days 60) (incomes d));
          incomeLast60Days = reduce_amount last60DaysIncomeTransactions;
          last30DaysExpenseTransactions =
            sort_date_desc (find_userId_gte uid (now30 - days 30) (expenses d));
          expensesLast30Days = reduce_amount last30DaysExpenseTransactions;
          lastTransactions =
            js_sort by_date_desc
              (map IncomeTxn (limit 5 (sort_date_desc (find_userId uid (incomes d))))
               @ map ExpenseTxn (limit 5 (sort_date_desc (find_userId uid (expenses d)))))
      in (Json 200
            \<lparr> totalBalance = first_total_or_0 totalIncomeRows - first_total_or_0 totalExpenseRows,
              totalIncome = first_total_or_0 totalIncomeRows,
              totalExpenses = first_total_or_0 totalExpenseRows,
              last30DaysExpenses =
                \<lparr> total = expensesLast30Days, transactions = last30DaysExpenseTransactions \<rparr>,
              last60DaysIncome =
                \<lparr> total = incomeLast60Days, transactions = last60DaysIncomeTransactions \<rparr>,
              recentTransactions = lastTransactions \<rparr>,
          d))"

subsection \<open>The order of equal dates\<close>

text \<open>
  \<open>.sort({ date: -1 })\<close> is answered by the database engine, and MongoDB does not fix
  the order in which it returns documents of equal date: the order may differ from one
  execution to the next. An engine is the way it sorts each collection; it is admissible
  when every answer is a rearrangement of the documents found that is non-increasing in
  the date.
\<close>

record engine =
  sortIncome :: "income list \<Rightarrow> income list"
  sortExpense :: "expense list \<Rightarrow> expense list"



text \<open>
  \<open>getDashboardData\<close> over an engine: the same handler, with the engine's answer in
  place of \<open>sort_date_desc\<close> in each of the four sorted queries.
\<close>

definition getDashboardDataOn :: "engine \<Rightarrow> millis \<Rightarrow> millis \<Rightarrow> request \<Rightarrow> db \<Rightarrow> summary response \<times> db" where
  "getDashboardDataOn e now60 now30 req d =
     (let uid = user req;
          totalIncomeRows = aggregate_total uid (incomes d);
          totalExpenseRows = aggregate_total uid (expenses d);
          last60DaysIncomeTransactions =
            sortIncome e (find_userId_gte uid (now60 - days 60) (incomes d));
          incomeLast60Days = reduce_amount last60DaysIncomeTransactions;
          last30DaysExpenseTransactions =
            sortExpense e (find_userId_gte uid (now30 - days 30) (expenses d));
          expensesLast30Days = reduce_amount last30DaysExpenseTransactions;
          lastTransactions =
            js_sort by_date_desc
              (map IncomeTxn (limit 5 (sortIncome e (find_userId uid (incomes d))))
               @ map ExpenseTxn (limit 5 (sortExpense e (find_userId uid (expenses d)))))
      in (Json 200
            \<lparr> totalBalance = first_total_or_0 totalIncomeRows - first_total_or_0 totalExpenseRows,
              totalIncome = first_total_or_0 totalIncomeRows,
              totalExpenses = first_total_or_0 totalExpenseRows,
              last30DaysExpenses =
                \<lparr> total = expensesLast30Days, transactions = last30DaysExpenseTransactions \<rparr>,
              last60DaysIncome =
                \<lparr> total = incomeLast60Days, transactions = last60DaysIncomeTransactions \<rparr>,
              recentTransactions = lastTransactions \<rparr>,
          d))"

text \<open>
  Two engines: one returns equal dates in the order of the collection (the engine of
  \<open>getDashboardData\<close> above), the other returns them in the reverse of that order.
\<close>

definition stable_engine :: engine where
  "stable_engine = \<lparr> sortIncome = sort_date_desc, sortExpense = sort_date_desc \<rparr>"



section \<open>The income and expense controllers\<close>

text \<open>
  What \<open>save()\<close> validates against the schema: \<open>icon: { type: String }\<close>,
  \<open>source\<close>/\<open>category: { type: String, required: true }\<close>,
  \<open>amount: { type: Number, required: true }\<close>, \<open>date: { type: Date, default: Date.now }\<close>.
\<close>

text \<open>
  A string is its own \<open>String\<close> cast and a number its own \<open>Number\<close> cast; the cast of
  a value of another type is the library's.
\<close>

definition cast_string :: "lib \<Rightarrow> jsval \<Rightarrow> string option" where
  "cast_string L v = (case v of JStr s \<Rightarrow> Some s | _ \<Rightarrow> castString L v)"

definition cast_number :: "lib \<Rightarrow> jsval \<Rightarrow> rat option" where
  "cast_number L v = (case v of JNum n \<Rightarrow> Some n | _ \<Rightarrow> castNumber L v)"

definition optional_string :: "lib \<Rightarrow> jsval \<Rightarrow> string option option" where
  "optional_string L v =
     (if v = JUndefined \<or> v = JNull then Some None else map_option Some (cast_string L v))"

definition required_string :: "lib \<Rightarrow> jsval \<Rightarrow> string option" where
  "required_string L v =
     (if v = JUndefined \<or> v = JNull then None
      else case cast_string L v of None \<Rightarrow> None | Some s \<Rightarrow> if s = [] then None else Some s)"

definition required_number :: "lib \<Rightarrow> jsval \<Rightarrow> rat option" where
  "required_number L v = (if v = JUndefined \<or> v = JNull then None else cast_number L v)"

text \<open>The schema's date: the default applies to a document built without one.\<close>

definition schema_date :: "millis \<Rightarrow> jsdate option \<Rightarrow> millis option" where
  "schema_date now v =
     (case v of None \<Rightarrow> Some now | Some (ValidDate t) \<Rightarrow> Some t | Some InvalidDate \<Rightarrow> None)"

text \<open>
  The validation that \<open>save()\<close> runs on \<open>new Model({ userId, icon, label, amount, date })\<close>:
  the cast fields, or \<open>None\<close> when it throws.
\<close>

definition validate :: "lib \<Rightarrow> millis \<Rightarrow> jsval \<Rightarrow> jsval \<Rightarrow> jsval \<Rightarrow> jsdate option \<Rightarrow> (string option \<times> string \<times> rat \<times> millis) option" where
  "validate L now ic lbl amt dt =
     (case optional_string L ic of None \<Rightarrow> None | Some i \<Rightarrow>
       (case required_string L lbl of None \<Rightarrow> None | Some s \<Rightarrow>
         (case required_number L amt of None \<Rightarrow> None | Some a \<Rightarrow>
           (case schema_date now dt of None \<Rightarrow> None | Some t \<Rightarrow> Some (i, s, a, t)))))"

text \<open>
  \<open>addIncome\<close> and \<open>addExpense\<close>: \<open>now\<close> is the clock at the save, \<open>newId\<close> the
  \<open>_id\<close> the driver generates. A throw inside \<open>try\<close> is answered with status 500.
\<close>

definition addIncome :: "lib \<Rightarrow> millis \<Rightarrow> objectId \<Rightarrow> request \<Rightarrow> db \<Rightarrow> income response \<times> db" where
  "addIncome L now newId req d =
     (let uid = user req;
          ic = b_icon (body req); src = b_label (body req);
          amt = b_amount (body req); dt = b_date (body req)
      in if \<not> truthy src \<or> \<not> truthy amt \<or> \<not> truthy dt
         then (Message 400 ''All fields are required'', d)
         else (case validate L now ic src amt (Some (newDate L dt)) of
                 None \<Rightarrow> (Message 500 ''Server Error'', d)
               | Some (i, s, a, t) \<Rightarrow>
                   (let newIncome =
                          \<lparr> oid = newId, userId = uid, icon = i, amount = a, date = t,
                            createdAt = now, updatedAt = now, source = s \<rparr>
                    in (Json 200 newIncome, d\<lparr>incomes := incomes d @ [newIncome]\<rparr>))))"

definition addExpense :: "lib \<Rightarrow> millis \<Rightarrow> objectId \<Rightarrow> request \<Rightarrow> db \<Rightarrow> expense response \<times> db" where
  "addExpense L now newId req d =
     (let uid = user req;
          ic = b_icon (body req); cat = b_label (body req);
          amt = b_amount (body req); dt = b_date (body req)
      in if \<not> truthy cat \<or> \<not> truthy amt \<or> \<not> truthy dt
         then (Message 400 ''All fields are required'', d)
         else (case validate L now ic cat amt (Some (newDate L dt)) of
                 None \<Rightarrow> (Message 500 ''Server Error'', d)
               | Some (i, s, a, t) \<Rightarrow>
                   (let newExpense =
                          \<lparr> oid = newId, userId = uid, icon = i, amount = a, date = t,
                            createdAt = now, updatedAt = now, category = s \<rparr>
                    in (Json 200 newExpense, d\<lparr>expenses := expenses d @ [newExpense]\<rparr>))))"

definition getAllIncome :: "request \<Rightarrow> db \<Rightarrow> income list response \<times> db" where
  "getAllIncome req d = (Json 200 (sort_date_desc (find_userId (user req) (incomes d))), d)"

definition getAllExpense :: "request \<Rightarrow> db \<Rightarrow> expense list response \<times> db" where
  "getAllExpense req d = (Json 200 (sort_date_desc (find_userId (user req) (expenses d))), d)"



section \<open>Example data\<close>

text \<open>
  Documents, requests and databases for the concrete runs below. \<open>lib_demo\<close> is an
  instance of the conversions for the values these runs use: \<open>new Date\<close> of a number is
  that time value, of the string \<open>2025-01-15\<close> its midnight in UTC, and of the other
  strings used below, none of which is a date, an invalid date; an \<open>ObjectId\<close> is read
  from a string of 24 hexadecimal digits and from no other string. It refuses the casts
  between types, which no run below reaches.
\<close>

definition mk_income :: "objectId \<Rightarrow> objectId \<Rightarrow> string \<Rightarrow> rat \<Rightarrow> millis \<Rightarrow> income" where
  "mk_income i u s a t =
     \<lparr> oid = i, userId = u, icon = None, amount = a, date = t,
       createdAt = t, updatedAt = t, source = s \<rparr>"

definition mk_expense :: "objectId \<Rightarrow> objectId \<Rightarrow> string \<Rightarrow> rat \<Rightarrow> millis \<Rightarrow> expense" where
  "mk_expense i u c a t =
     \<lparr> oid = i, userId = u, icon = None, amount = a, date = t,
       createdAt = t, updatedAt = t, category = c \<rparr>"

definition req_of :: "objectId \<Rightarrow> request" where
  "req_of u =
     \<lparr> user = u, params_id = [],
       body = \<lparr> b_icon = JUndefined, b_label = JUndefined, b_amount = JUndefined,
                b_date = JUndefined \<rparr> \<rparr>"

definition req_add :: "objectId \<Rightarrow> jsval \<Rightarrow> jsval \<Rightarrow> jsval \<Rightarrow> request" where
  "req_add u lbl amt dt =
     \<lparr> user = u, params_id = [],
       body = \<lparr> b_icon = JUndefined, b_label = lbl, b_amount = amt, b_date = dt \<rparr> \<rparr>"


definition hex_digit :: "char \<Rightarrow> nat option" where
  "hex_digit c =
     map_of [(CHR ''0'', 0), (CHR ''1'', 1), (CHR ''2'', 2), (CHR ''3'', 3), (CHR ''4'', 4),
             (CHR ''5'', 5), (CHR ''6'', 6), (CHR ''7'', 7), (CHR ''8'', 8), (CHR ''9'', 9),
             (CHR ''a'', 10), (CHR ''b'', 11), (CHR ''c'', 12), (CHR ''d'', 13),
             (CHR ''e'', 14), (CHR ''f'', 15), (CHR ''A'', 10), (CHR ''B'', 11),
             (CHR ''C'', 12), (CHR ''D'', 13), (CHR ''E'', 14), (CHR ''F'', 15)] c"

fun hex_value :: "nat \<Rightarrow> string \<Rightarrow> nat option" where
  "hex_value acc [] = Some acc"
| "hex_value acc (c # cs) =
     (case hex_digit c of None \<Rightarrow> None | Some v \<Rightarrow> hex_value (16 * acc + v) cs)"

definition lib_demo :: lib where
  "lib_demo =
     \<lparr> newDate = (\<lambda>v. case v of
           JNum n \<Rightarrow> (if \<bar>n\<bar> \<le> 8640000000000000
                      then ValidDate (if 0 \<le> n then \<lfloor>n\<rfloor> else \<lceil>n\<rceil>) else InvalidDate)
         | JStr s \<Rightarrow> (if s = ''2025-01-15'' then ValidDate 1736899200000 else InvalidDate)
         | _ \<Rightarrow> InvalidDate),
       castString = (\<lambda>v. None),
       castNumber = (\<lambda>v. None),
       castObjectId = (\<lambda>s. if length s = 24 then hex_value 0 s else None) \<rparr>"

definition db_empty :: db where
  "db_empty = \<lparr> incomes = [], expenses = [] \<rparr>"

text \<open>Seven incomes of user 1 and no expense.\<close>

definition db_seven :: db where
  "db_seven =
     \<lparr> incomes = [mk_income 1 1 ''Salary'' 100 1, mk_income 2 1 ''Salary'' 100 2,
                  mk_income 3 1 ''Salary'' 100 3, mk_income 4 1 ''Salary'' 100 4,
                  mk_income 5 1 ''Salary'' 100 5, mk_income 6 1 ''Salary'' 100 6,
                  mk_income 7 1 ''Salary'' 100 7],
       expenses = [] \<rparr>"

text \<open>
  Users 1 and 2, read at the instant \<open>days 100\<close>: an income and an expense of user 1
  share the date \<open>days 98\<close>; one expense lies exactly 30 days back, one a millisecond
  earlier.
\<close>

definition db_scenario :: db where
  "db_scenario =
     \<lparr> incomes = [mk_income 1 1 ''Salary'' 5000 (days 99), mk_income 2 1 ''Freelance'' 1500 (days 80),
                  mk_income 3 2 ''Bonus'' 700 (days 98), mk_income 4 1 ''Gift'' 50 (days 98)],
       expenses = [mk_expense 5 1 ''Rent'' 1200 (days 98), mk_expense 6 1 ''Food'' 300 (days 65),
                   mk_expense 7 1 ''Edge'' 10 (days 70), mk_expense 8 1 ''Out'' 20 (days 70 - 1),
                   mk_expense 9 2 ''Other'' 999 (days 99)] \<rparr>"


text \<open>The same database without the documents of user 2.\<close>

definition db_scenario_user1 :: db where
  "db_scenario_user1 =
     \<lparr> incomes = [mk_income 1 1 ''Salary'' 5000 (days 99), mk_income 2 1 ''Freelance'' 1500 (days 80),
                  mk_income 4 1 ''Gift'' 50 (days 98)],
       expenses = [mk_expense 5 1 ''Rent'' 1200 (days 98), mk_expense 6 1 ''Food'' 300 (days 65),
                   mk_expense 7 1 ''Edge'' 10 (days 70), mk_expense 8 1 ''Out'' 20 (days 70 - 1)] \<rparr>"

text \<open>
  Of two entries of different kinds, the one tagged income stands before the one tagged
  expense.
\<close>

definition income_first :: "txn \<Rightarrow> txn \<Rightarrow> bool" where
  "income_first a b =
     (txn_type a \<noteq> txn_type b \<longrightarrow> txn_type a = ''income'' \<and> txn_type b = ''expense'')"

section \<open>Evaluation and basic facts\<close>

lemmas dashboard_eval =
  getDashboardData_def Let_def find_userId_def find_userId_gte_def sort_date_desc_def
  limit_def aggregate_total_def first_total_or_0_def reduce_amount_def js_sort_def
  by_date_desc_def days_def mk_income_def mk_expense_def req_of_def

lemma js_insert_by_date: "js_insert by_date_desc x ys = insort_key (\<lambda>t. - txn_date t) x ys"
  by (induction ys) (auto simp: by_date_desc_def)

lemma js_sort_by_date: "js_sort by_date_desc xs = sort_key (\<lambda>t. - txn_date t) xs"
  by (induction xs) (simp_all add: js_sort_def js_insert_by_date)

lemma dashboard_ok: "\<exists>s. getDashboardData n60 n30 req d = (Json 200 s, d)"
  by (simp add: getDashboardData_def Let_def)

lemma dashboard_recent:
  "getDashboardData n60 n30 req d = (Json 200 s, d') \<Longrightarrow>
   recentTransactions s =
     sort_key (\<lambda>t. - txn_date t)
       (map IncomeTxn (take 5 (sort_date_desc (find_userId (user req) (incomes d))))
        @ map ExpenseTxn (take 5 (sort_date_desc (find_userId (user req) (expenses d)))))"
  by (auto simp: getDashboardData_def Let_def js_sort_by_date limit_def)

lemma reduce_amount_Nil: "reduce_amount [] = 0"
  by (simp add: reduce_amount_def)

lemma find_gte_find: "find_userId_gte u c xs = filter (\<lambda>x. c \<le> date x) (find_userId u xs)"
  by (simp add: find_userId_gte_def find_userId_def conj_commute)

lemma first_total_none: "find_userId u xs = [] \<Longrightarrow> first_total_or_0 (aggregate_total u xs) = 0"
  by (simp add: aggregate_total_def first_total_or_0_def)

section \<open>Recent transactions\<close>

text \<open>
  C1, as the specification states it: the length of \<open>recentTransactions\<close> is
  \<open>min 10 (incomeCount + expenseCount)\<close>. It fails for user 1 of \<open>db_seven\<close>, who has
  seven incomes and no expense: the feed holds five entries, the formula gives seven.
\<close>

theorem c1_counterexample:
  "map_option (length \<circ> recentTransactions)
      (json_body (fst (getDashboardData 0 0 (req_of 1) db_seven))) = Some 5
   \<and> min 10 (length (find_userId 1 (incomes db_seven))
              + length (find_userId 1 (expenses db_seven))) = 7"
  by (simp add: dashboard_eval db_seven_def)

text \<open>
  C1, amended: each kind is limited to five documents before the two are concatenated,
  so the length of \<open>recentTransactions\<close> is
  \<open>min 5 incomeCount + min 5 expenseCount\<close>, where the counts are the numbers of the
  owner's income and expense documents.
\<close>

theorem c1_recent_length:
  "\<exists>s. getDashboardData n60 n30 req d = (Json 200 s, d) \<and>
     length (recentTransactions s) =
       min 5 (length (find_userId (user req) (incomes d)))
       + min 5 (length (find_userId (user req) (expenses d)))"
proof -
  obtain s where s: "getDashboardData n60 n30 req d = (Json 200 s, d)"
    using dashboard_ok by blast
  have "length (recentTransactions s) =
     min 5 (length (find_userId (user req) (incomes d)))
     + min 5 (length (find_userId (user req) (expenses d)))"
    by (simp add: dashboard_recent[OF s] sort_date_desc_def min.commute)
  with s show ?thesis by blast
qed

theorem c1_recent_length_witness:
  "\<exists>s. getDashboardData 0 0 (req_of 1) db_seven = (Json 200 s, db_seven) \<and>
     length (recentTransactions s) = 5"
proof -
  have "min 5 (length (find_userId (user (req_of 1)) (incomes db_seven)))
        + min 5 (length (find_userId (user (req_of 1)) (expenses db_seven))) = 5"
    by (simp add: find_userId_def db_seven_def mk_income_def req_of_def)
  with c1_recent_length[of 0 0 "req_of 1" db_seven] show ?thesis by simp
qed

subsection \<open>Order of the feed\<close>

lemma sorted_wrt_filter_iff:
  "sorted_wrt P (filter Q xs) = sorted_wrt (\<lambda>a b. Q a \<and> Q b \<longrightarrow> P a b) xs"
  by (induction xs) auto

lemma income_first_concat: "sorted_wrt income_first (map IncomeTxn xs @ map ExpenseTxn ys)"
  by (simp add: sorted_wrt_append sorted_wrt_map income_first_def)

lemma tie_order:
  "sorted_wrt (\<lambda>a b. txn_date a = txn_date b \<longrightarrow> income_first a b)
     (sort_key (\<lambda>t. - txn_date t) (map IncomeTxn xs @ map ExpenseTxn ys))"
    (is "sorted_wrt ?R ?rs")
proof -
  let ?zs = "map IncomeTxn xs @ map ExpenseTxn ys"
  have k: "sorted_wrt (\<lambda>a b. - txn_date a = k \<and> - txn_date b = k \<longrightarrow> income_first a b) ?rs" for k
  proof -
    have "filter (\<lambda>t. - txn_date t = k) ?rs = filter (\<lambda>t. - txn_date t = k) ?zs"
      by (rule sort_key_stable)
    moreover have "sorted_wrt income_first (filter (\<lambda>t. - txn_date t = k) ?zs)"
      using income_first_concat by (rule sorted_wrt_filter)
    ultimately have "sorted_wrt income_first (filter (\<lambda>t. - txn_date t = k) ?rs)" by simp
    then show ?thesis by (simp add: sorted_wrt_filter_iff)
  qed
  show ?thesis
    unfolding sorted_wrt_iff_nth_less
  proof (intro allI impI)
    fix i j assume ij: "i < j" "j < length ?rs" and eq: "txn_date (?rs ! i) = txn_date (?rs ! j)"
    from k[of "- txn_date (?rs ! i)"] ij eq show "income_first (?rs ! i) (?rs ! j)"
      unfolding sorted_wrt_iff_nth_less by auto
  qed
qed

lemma date_order:
  "sorted_wrt (\<lambda>a b. txn_date b \<le> txn_date a) (sort_key (\<lambda>t. - txn_date t) zs)"
proof -
  have "sorted (map (\<lambda>t. - txn_date t) (sort_key (\<lambda>t. - txn_date t) zs))"
    by (rule sorted_sort_key)
  then show ?thesis by (simp add: sorted_map)
qed

text \<open>
  C2: \<open>recentTransactions\<close> is sorted by date, newest first, and of two entries with the
  same date and different kinds the one tagged income comes first.
\<close>

theorem c2_recent_sorted:
  "\<exists>s. getDashboardData n60 n30 req d = (Json 200 s, d) \<and>
     sorted_wrt (\<lambda>a b. txn_date b \<le> txn_date a \<and>
          (txn_date a = txn_date b \<and> txn_type a \<noteq> txn_type b \<longrightarrow>
             txn_type a = ''income'' \<and> txn_type b = ''expense''))
       (recentTransactions s)"
proof -
  obtain s where s: "getDashboardData n60 n30 req d = (Json 200 s, d)"
    using dashboard_ok by blast
  have "sorted_wrt (\<lambda>a b. txn_date b \<le> txn_date a) (recentTransactions s)"
    unfolding dashboard_recent[OF s] by (rule date_order)
  moreover have "sorted_wrt (\<lambda>a b. txn_date a = txn_date b \<longrightarrow> income_first a b) (recentTransactions s)"
    unfolding dashboard_recent[OF s] by (rule tie_order)
  ultimately have "sorted_wrt (\<lambda>a b. txn_date b \<le> txn_date a \<and>
        (txn_date a = txn_date b \<and> txn_type a \<noteq> txn_type b \<longrightarrow>
           txn_type a = ''income'' \<and> txn_type b = ''expense''))
     (recentTransactions s)"
    unfolding sorted_wrt_iff_nth_less income_first_def by blast
  with s show ?thesis by blast
qed

theorem c2_recent_sorted_witness:
  "\<exists>s. getDashboardData (days 100) (days 100) (req_of 1) db_scenario = (Json 200 s, db_scenario) \<and>
     map (\<lambda>t. (txn_type t, txn_date t)) (recentTransactions s) =
       [(''income'', days 99), (''income'', days 98), (''expense'', days 98),
        (''income'', days 80), (''expense'', days 70), (''expense'', days 70 - 1),
        (''expense'', days 65)] \<and>
     sorted_wrt (\<lambda>a b. txn_date b \<le> txn_date a \<and>
          (txn_date a = txn_date b \<and> txn_type a \<noteq> txn_type b \<longrightarrow>
             txn_type a = ''income'' \<and> txn_type b = ''expense''))
       (recentTransactions s)"
proof -
  from c2_recent_sorted[of "days 100" "days 100" "req_of 1" db_scenario]
  obtain s where s: "getDashboardData (days 100) (days 100) (req_of 1) db_scenario = (Json 200 s, db_scenario)"
    and srt: "sorted_wrt (\<lambda>a b. txn_date b \<le> txn_date a \<and>
          (txn_date a = txn_date b \<and> txn_type a \<noteq> txn_type b \<longrightarrow>
             txn_type a = ''income'' \<and> txn_type b = ''expense''))
       (recentTransactions s)" by blast
  have m: "map (\<lambda>t. (txn_type t, txn_date t)) (recentTransactions s) =
       [(''income'', days 99), (''income'', days 98), (''expense'', days 98),
        (''income'', days 80), (''expense'', days 70), (''expense'', days 70 - 1),
        (''expense'', days 65)]"
    using s by (auto simp: dashboard_eval db_scenario_def)
  show ?thesis
  proof (rule exI[of _ s], intro conjI)
    show "getDashboardData (days 100) (days 100) (req_of 1) db_scenario = (Json 200 s, db_scenario)"
      by (rule s)
  qed (rule m, rule srt)
qed

section \<open>Totals\<close>

text \<open>
  C3: in every summary, \<open>totalBalance\<close> is \<open>totalIncome\<close> minus \<open>totalExpenses\<close>.
\<close>

theorem c3_balance:
  "\<exists>s. getDashboardData n60 n30 req d = (Json 200 s, d) \<and>
     totalBalance s = totalIncome s - totalExpenses s"
  by (simp add: getDashboardData_def Let_def)

theorem c3_balance_witness:
  "\<exists>s. getDashboardData (days 100) (days 100) (req_of 1) db_scenario = (Json 200 s, db_scenario) \<and>
     totalIncome s = 6550 \<and> totalExpenses s = 1530 \<and> totalBalance s = 5020"
proof -
  from c3_balance[of "days 100" "days 100" "req_of 1" db_scenario]
  obtain s where s: "getDashboardData (days 100) (days 100) (req_of 1) db_scenario = (Json 200 s, db_scenario)"
    and bal: "totalBalance s = totalIncome s - totalExpenses s" by blast
  have inc: "totalIncome s = 6550" using s by (auto simp: dashboard_eval db_scenario_def)
  have exp: "totalExpenses s = 1530" using s by (auto simp: dashboard_eval db_scenario_def)
  from bal inc exp have "totalBalance s = 5020" by simp
  with s inc exp show ?thesis by blast
qed

text \<open>
  C4: the summary is always computed, and for an owner without documents of a kind the
  total of that kind is \<open>0\<close> and its window is empty; without documents of either
  kind the balance is \<open>0\<close> and the feed is empty.
\<close>

theorem c4_no_records:
  "\<exists>s. getDashboardData n60 n30 req d = (Json 200 s, d) \<and>
     (find_userId (user req) (incomes d) = [] \<longrightarrow>
        totalIncome s = 0 \<and> last60DaysIncome s = \<lparr> total = 0, transactions = [] \<rparr>) \<and>
     (find_userId (user req) (expenses d) = [] \<longrightarrow>
        totalExpenses s = 0 \<and> last30DaysExpenses s = \<lparr> total = 0, transactions = [] \<rparr>) \<and>
     (find_userId (user req) (incomes d) = [] \<and> find_userId (user req) (expenses d) = [] \<longrightarrow>
        totalBalance s = 0 \<and> recentTransactions s = [])"
  by (simp add: getDashboardData_def Let_def first_total_none find_gte_find sort_date_desc_def
      reduce_amount_Nil js_sort_def limit_def)

theorem c4_no_records_witness:
  "find_userId (user (req_of 3)) (incomes db_scenario) = [] \<and>
   find_userId (user (req_of 3)) (expenses db_scenario) = [] \<and>
   getDashboardData (days 100) (days 100) (req_of 3) db_scenario =
     (Json 200
        \<lparr> totalBalance = 0, totalIncome = 0, totalExpenses = 0,
          last30DaysExpenses = \<lparr> total = 0, transactions = [] \<rparr>,
          last60DaysIncome = \<lparr> total = 0, transactions = [] \<rparr>,
          recentTransactions = [] \<rparr>,
      db_scenario)"
proof -
  have i: "find_userId (user (req_of 3)) (incomes db_scenario) = []"
    by (simp add: find_userId_def req_of_def db_scenario_def mk_income_def)
  have e: "find_userId (user (req_of 3)) (expenses db_scenario) = []"
    by (simp add: find_userId_def req_of_def db_scenario_def mk_expense_def)
  from c4_no_records[of "days 100" "days 100" "req_of 3" db_scenario] i e
  obtain s where s: "getDashboardData (days 100) (days 100) (req_of 3) db_scenario = (Json 200 s, db_scenario)"
    and f: "totalIncome s = 0" "last60DaysIncome s = \<lparr> total = 0, transactions = [] \<rparr>"
       "totalExpenses s = 0" "last30DaysExpenses s = \<lparr> total = 0, transactions = [] \<rparr>"
       "totalBalance s = 0" "recentTransactions s = []" by auto
  from f have "s = \<lparr> totalBalance = 0, totalIncome = 0, totalExpenses = 0,
          last30DaysExpenses = \<lparr> total = 0, transactions = [] \<rparr>,
          last60DaysIncome = \<lparr> total = 0, transactions = [] \<rparr>,
          recentTransactions = [] \<rparr>" by (cases s) simp
  with s i e show ?thesis by simp
qed

section \<open>The 30-day window\<close>

lemma dashboard_last30:
  "getDashboardData n60 n30 req d = (Json 200 s, d') \<Longrightarrow>
   transactions (last30DaysExpenses s) =
     sort_date_desc (find_userId_gte (user req) (n30 - days 30) (expenses d))"
  by (auto simp: getDashboardData_def Let_def)

text \<open>
  C5: with \<open>n30\<close> the instant read for the expense query, the transactions of
  \<open>last30DaysExpenses\<close> are exactly the owner's expenses dated \<open>n30 - days 30\<close> or
  later: an expense dated exactly \<open>n30 - days 30\<close> is among them, one dated a
  millisecond earlier is not.
\<close>

theorem c5_last30_window:
  "\<exists>s. getDashboardData n60 n30 req d = (Json 200 s, d) \<and>
     mset (transactions (last30DaysExpenses s)) =
       mset (filter (\<lambda>e. userId e = user req \<and> n30 - days 30 \<le> date e) (expenses d)) \<and>
     (\<forall>e \<in> set (expenses d). userId e = user req \<longrightarrow>
        (date e = n30 - days 30 \<longrightarrow> e \<in> set (transactions (last30DaysExpenses s))) \<and>
        (date e = n30 - days 30 - 1 \<longrightarrow> e \<notin> set (transactions (last30DaysExpenses s))))"
proof -
  obtain s where s: "getDashboardData n60 n30 req d = (Json 200 s, d)"
    using dashboard_ok by blast
  have m: "mset (transactions (last30DaysExpenses s)) =
       mset (filter (\<lambda>e. userId e = user req \<and> n30 - days 30 \<le> date e) (expenses d))"
    by (simp add: dashboard_last30[OF s] sort_date_desc_def find_userId_gte_def)
  have st: "set (transactions (last30DaysExpenses s)) =
       {e \<in> set (expenses d). userId e = user req \<and> n30 - days 30 \<le> date e}"
    by (simp add: dashboard_last30[OF s] sort_date_desc_def find_userId_gte_def)
  have "\<forall>e \<in> set (expenses d). userId e = user req \<longrightarrow>
        (date e = n30 - days 30 \<longrightarrow> e \<in> set (transactions (last30DaysExpenses s))) \<and>
        (date e = n30 - days 30 - 1 \<longrightarrow> e \<notin> set (transactions (last30DaysExpenses s)))"
    unfolding st by auto
  with s m show ?thesis by (intro exI[of _ s]) simp
qed

theorem c5_last30_window_witness:
  "\<exists>s. getDashboardData (days 100) (days 100) (req_of 1) db_scenario = (Json 200 s, db_scenario) \<and>
     mk_expense 7 1 ''Edge'' 10 (days 100 - days 30) \<in> set (transactions (last30DaysExpenses s)) \<and>
     mk_expense 8 1 ''Out'' 20 (days 100 - days 30 - 1) \<notin> set (transactions (last30DaysExpenses s))"
proof -
  let ?edge = "mk_expense 7 1 ''Edge'' 10 (days 100 - days 30)"
  let ?out = "mk_expense 8 1 ''Out'' 20 (days 100 - days 30 - 1)"
  have mem: "?edge \<in> set (expenses db_scenario)" "?out \<in> set (expenses db_scenario)"
    by (simp_all add: db_scenario_def days_def)
  have own: "userId ?edge = user (req_of 1)" "userId ?out = user (req_of 1)"
    by (simp_all add: mk_expense_def req_of_def)
  have dt: "date ?edge = days 100 - days 30" "date ?out = days 100 - days 30 - 1"
    by (simp_all add: mk_expense_def)
  from c5_last30_window[of "days 100" "days 100" "req_of 1" db_scenario]
  obtain s where s: "getDashboardData (days 100) (days 100) (req_of 1) db_scenario = (Json 200 s, db_scenario)"
    and b: "\<forall>e \<in> set (expenses db_scenario). userId e = user (req_of 1) \<longrightarrow>
        (date e = days 100 - days 30 \<longrightarrow> e \<in> set (transactions (last30DaysExpenses s))) \<and>
        (date e = days 100 - days 30 - 1 \<longrightarrow> e \<notin> set (transactions (last30DaysExpenses s)))"
    by blast
  from b mem own dt have "?edge \<in> set (transactions (last30DaysExpenses s))"
    and "?out \<notin> set (transactions (last30DaysExpenses s))" by blast+
  with s show ?thesis by (intro exI[of _ s]) simp
qed

section \<open>Two runs\<close>


lemma getDashboardData_stable:
  "getDashboardData n60 n30 req d = getDashboardDataOn stable_engine n60 n30 req d"
  by (simp add: getDashboardData_def getDashboardDataOn_def stable_engine_def)













section \<open>Reads\<close>

text \<open>
  C7: the summary and the two lists of a user depend on that user's documents only: two
  databases that hold the same documents of the user, in the same order, give the same
  responses, whatever they hold of other users.
\<close>

theorem c7_owner_scoped:
  assumes "find_userId (user req) (incomes d1) = find_userId (user req) (incomes d2)"
    and "find_userId (user req) (expenses d1) = find_userId (user req) (expenses d2)"
  shows "fst (getDashboardData n60 n30 req d1) = fst (getDashboardData n60 n30 req d2) \<and>
         fst (getAllIncome req d1) = fst (getAllIncome req d2) \<and>
         fst (getAllExpense req d1) = fst (getAllExpense req d2)"
  using assms
  by (simp add: getDashboardData_def Let_def getAllIncome_def getAllExpense_def
      aggregate_total_def find_gte_find)

theorem c7_owner_scoped_witness:
  "incomes db_scenario \<noteq> incomes db_scenario_user1 \<and>
   expenses db_scenario \<noteq> expenses db_scenario_user1 \<and>
   fst (getDashboardData (days 100) (days 100) (req_of 1) db_scenario)
     = fst (getDashboardData (days 100) (days 100) (req_of 1) db_scenario_user1) \<and>
   fst (getAllIncome (req_of 1) db_scenario) = fst (getAllIncome (req_of 1) db_scenario_user1) \<and>
   fst (getAllExpense (req_of 1) db_scenario) = fst (getAllExpense (req_of 1) db_scenario_user1)"
proof -
  have i: "find_userId (user (req_of 1)) (incomes db_scenario)
         = find_userId (user (req_of 1)) (incomes db_scenario_user1)"
    by (simp add: find_userId_def req_of_def db_scenario_def db_scenario_user1_def mk_income_def)
  have e: "find_userId (user (req_of 1)) (expenses db_scenario)
         = find_userId (user (req_of 1)) (expenses db_scenario_user1)"
    by (simp add: find_userId_def req_of_def db_scenario_def db_scenario_user1_def mk_expense_def)
  have ne: "incomes db_scenario \<noteq> incomes db_scenario_user1"
    "expenses db_scenario \<noteq> expenses db_scenario_user1"
    by (simp_all add: db_scenario_def db_scenario_user1_def)
  from c7_owner_scoped[OF i e, of "days 100" "days 100"] ne show ?thesis by simp
qed

section \<open>Deletion\<close>







section \<open>Creation\<close>

text \<open>
  C9, as the specification states it: a create request that does not supply the date
  succeeds and the stored date is the creation time. It fails: for a body without
  \<open>date\<close> the guard \<open>!date\<close> answers 400 and nothing is stored.
\<close>

theorem c9_counterexample:
  "addIncome lib_demo 1000 9 (req_add 1 (JStr ''Salary'') (JNum 5000) JUndefined) db_empty
     = (Message 400 ''All fields are required'', db_empty)"
  by (simp add: addIncome_def req_add_def Let_def)

text \<open>
  C9, amended: a create request whose date is not supplied (absent, null, or any other
  falsy value) is rejected with status 400 and the message \<open>All fields are required\<close>,
  and the database is unchanged; the schema's default date is never reached through
  the controllers.
\<close>

theorem c9_date_required:
  "\<not> truthy (b_date (body req)) \<longrightarrow>
     addIncome L now newId req d = (Message 400 ''All fields are required'', d) \<and>
     addExpense L now newId req d = (Message 400 ''All fields are required'', d)"
  by (simp add: addIncome_def addExpense_def Let_def)

theorem c9_date_required_witness:
  "addIncome lib_demo 1000 9 (req_add 1 (JStr ''Salary'') (JNum 5000) JNull) db_scenario
     = (Message 400 ''All fields are required'', db_scenario) \<and>
   addExpense lib_demo 1000 9 (req_add 1 (JStr ''Rent'') (JNum 1200) (JStr [])) db_scenario
     = (Message 400 ''All fields are required'', db_scenario)"
proof -
  have 1: "\<not> truthy (b_date (body (req_add 1 (JStr ''Salary'') (JNum 5000) JNull)))"
    by (simp add: req_add_def)
  have 2: "\<not> truthy (b_date (body (req_add 1 (JStr ''Rent'') (JNum 1200) (JStr []))))"
    by (simp add: req_add_def)
  from c9_date_required[of "req_add 1 (JStr ''Salary'') (JNum 5000) JNull" lib_demo 1000 9 db_scenario] 1
       c9_date_required[of "req_add 1 (JStr ''Rent'') (JNum 1200) (JStr [])" lib_demo 1000 9 db_scenario] 2
  show ?thesis by simp
qed

text \<open>
  C10, as stated: acceptance is decided by the truthiness of the required fields alone,
  so that every request with a strictly negative numeric amount and the other fields
  present is stored. It fails: with all three fields truthy, the amount \<open>-5\<close> and a
  date string that is no date, the request is answered with status 500 and nothing is
  stored.
\<close>

theorem c10_counterexample:
  "truthy (JStr ''Salary'') \<and> truthy (JNum (- 5)) \<and> truthy (JStr ''garbage'') \<and>
   addIncome lib_demo 1000 9 (req_add 1 (JStr ''Salary'') (JNum (- 5)) (JStr ''garbage'')) db_empty
     = (Message 500 ''Server Error'', db_empty)"
  by (simp add: addIncome_def req_add_def Let_def lib_demo_def validate_def optional_string_def
      required_string_def required_number_def cast_string_def cast_number_def schema_date_def)

text \<open>
  C10, amended: a request whose numeric amount is exactly \<open>0\<close> is rejected with status
  400 and the message \<open>All fields are required\<close>, the database unchanged. A request with
  a strictly negative numeric amount and truthy label and date passes that check; it is
  answered with status 200 and the document is appended with that amount unchanged when
  the schema accepts the other fields (the icon and the label cast to strings, the label
  not empty, \<open>new Date(date)\<close> a valid date), and with status 500, the database
  unchanged, when it does not.
\<close>

theorem c10_negative_amount:
  "(b_amount (body req) = JNum a \<and> a < 0 \<and>
    truthy (b_label (body req)) \<and> truthy (b_date (body req)) \<longrightarrow>
      (optional_string L (b_icon (body req)) = Some ic \<and>
       required_string L (b_label (body req)) = Some s \<and>
       newDate L (b_date (body req)) = ValidDate t \<longrightarrow>
         addIncome L now newId req d =
           (Json 200 \<lparr> oid = newId, userId = user req, icon = ic, amount = a, date = t,
                         createdAt = now, updatedAt = now, source = s \<rparr>,
            d\<lparr>incomes := incomes d @
                 [\<lparr> oid = newId, userId = user req, icon = ic, amount = a, date = t,
                    createdAt = now, updatedAt = now, source = s \<rparr>]\<rparr>) \<and>
         addExpense L now newId req d =
           (Json 200 \<lparr> oid = newId, userId = user req, icon = ic, amount = a, date = t,
                         createdAt = now, updatedAt = now, category = s \<rparr>,
            d\<lparr>expenses := expenses d @
                 [\<lparr> oid = newId, userId = user req, icon = ic, amount = a, date = t,
                    createdAt = now, updatedAt = now, category = s \<rparr>]\<rparr>)) \<and>
      (optional_string L (b_icon (body req)) = None \<or>
       required_string L (b_label (body req)) = None \<or>
       newDate L (b_date (body req)) = InvalidDate \<longrightarrow>
         addIncome L now newId req d = (Message 500 ''Server Error'', d) \<and>
         addExpense L now newId req d = (Message 500 ''Server Error'', d)))
   \<and>
   (b_amount (body req) = JNum 0 \<longrightarrow>
      addIncome L now newId req d = (Message 400 ''All fields are required'', d) \<and>
      addExpense L now newId req d = (Message 400 ''All fields are required'', d))"
proof (intro conjI impI)
  assume h: "b_amount (body req) = JNum a \<and> a < 0 \<and>
    truthy (b_label (body req)) \<and> truthy (b_date (body req))"
    and c: "optional_string L (b_icon (body req)) = Some ic \<and>
       required_string L (b_label (body req)) = Some s \<and>
       newDate L (b_date (body req)) = ValidDate t"
  from h c have v: "validate L now (b_icon (body req)) (b_label (body req)) (b_amount (body req))
      (Some (newDate L (b_date (body req)))) = Some (ic, s, a, t)"
    by (simp add: validate_def required_number_def cast_number_def schema_date_def)
  from h v show "addIncome L now newId req d =
           (Json 200 \<lparr> oid = newId, userId = user req, icon = ic, amount = a, date = t,
                         createdAt = now, updatedAt = now, source = s \<rparr>,
            d\<lparr>incomes := incomes d @
                 [\<lparr> oid = newId, userId = user req, icon = ic, amount = a, date = t,
                    createdAt = now, updatedAt = now, source = s \<rparr>]\<rparr>)"
    by (simp add: addIncome_def Let_def)
  from h v show "addExpense L now newId req d =
           (Json 200 \<lparr> oid = newId, userId = user req, icon = ic, amount = a, date = t,
                         createdAt = now, updatedAt = now, category = s \<rparr>,
            d\<lparr>expenses := expenses d @
                 [\<lparr> oid = newId, userId = user req, icon = ic, amount = a, date = t,
                    createdAt = now, updatedAt = now, category = s \<rparr>]\<rparr>)"
    by (simp add: addExpense_def Let_def)
next
  assume h: "b_amount (body req) = JNum a \<and> a < 0 \<and>
    truthy (b_label (body req)) \<and> truthy (b_date (body req))"
    and c: "optional_string L (b_icon (body req)) = None \<or>
       required_string L (b_label (body req)) = None \<or>
       newDate L (b_date (body req)) = InvalidDate"
  from c have v: "validate L now (b_icon (body req)) (b_label (body req)) (b_amount (body req))
      (Some (newDate L (b_date (body req)))) = None"
    by (auto simp: validate_def schema_date_def split: option.splits)
  from h v show "addIncome L now newId req d = (Message 500 ''Server Error'', d)"
    by (simp add: addIncome_def Let_def)
  from h v show "addExpense L now newId req d = (Message 500 ''Server Error'', d)"
    by (simp add: addExpense_def Let_def)
next
  assume "b_amount (body req) = JNum 0"
  then show "addIncome L now newId req d = (Message 400 ''All fields are required'', d)"
    by (simp add: addIncome_def Let_def)
next
  assume "b_amount (body req) = JNum 0"
  then show "addExpense L now newId req d = (Message 400 ''All fields are required'', d)"
    by (simp add: addExpense_def Let_def)
qed

theorem c10_negative_amount_witness:
  "addIncome lib_demo 1000 9 (req_add 1 (JStr ''Refund'') (JNum (- 25)) (JStr ''2025-01-15'')) db_empty
     = (Json 200 \<lparr> oid = 9, userId = 1, icon = None, amount = - 25, date = 1736899200000,
                    createdAt = 1000, updatedAt = 1000, source = ''Refund'' \<rparr>,
        db_empty\<lparr>incomes := [\<lparr> oid = 9, userId = 1, icon = None, amount = - 25,
                                date = 1736899200000, createdAt = 1000, updatedAt = 1000,
                                source = ''Refund'' \<rparr>]\<rparr>) \<and>
   addExpense lib_demo 1000 9 (req_add 1 (JStr ''Refund'') (JNum (- 25)) (JStr ''not a date'')) db_empty
     = (Message 500 ''Server Error'', db_empty) \<and>
   addExpense lib_demo 1000 9 (req_add 1 (JStr ''Refund'') (JNum 0) (JStr ''2025-01-15'')) db_empty
     = (Message 400 ''All fields are required'', db_empty)"
proof -
  let ?r = "req_add 1 (JStr ''Refund'') (JNum (- 25)) (JStr ''2025-01-15'')"
  let ?g = "req_add 1 (JStr ''Refund'') (JNum (- 25)) (JStr ''not a date'')"
  let ?z = "req_add 1 (JStr ''Refund'') (JNum 0) (JStr ''2025-01-15'')"
  have h: "b_amount (body ?r) = JNum (- 25) \<and> (- 25 :: rat) < 0 \<and>
    truthy (b_label (body ?r)) \<and> truthy (b_date (body ?r))"
    by (simp add: req_add_def)
  have c: "optional_string lib_demo (b_icon (body ?r)) = Some None \<and>
    required_string lib_demo (b_label (body ?r)) = Some ''Refund'' \<and>
    newDate lib_demo (b_date (body ?r)) = ValidDate 1736899200000"
    by (simp add: req_add_def lib_demo_def optional_string_def required_string_def cast_string_def)
  have u: "user ?r = 1" "incomes db_empty = []"
    by (simp_all add: req_add_def db_empty_def)
  have hg: "b_amount (body ?g) = JNum (- 25) \<and> (- 25 :: rat) < 0 \<and>
    truthy (b_label (body ?g)) \<and> truthy (b_date (body ?g))"
    by (simp add: req_add_def)
  have cg: "newDate lib_demo (b_date (body ?g)) = InvalidDate"
    by (simp add: req_add_def lib_demo_def)
  have z: "b_amount (body ?z) = JNum 0"
    by (simp add: req_add_def)
  from c10_negative_amount[where req = ?r and a = "- 25" and L = lib_demo and ic = None
        and s = "''Refund''" and t = 1736899200000 and now = 1000 and newId = 9 and d = db_empty]
       h c u
  have a: "addIncome lib_demo 1000 9 ?r db_empty
     = (Json 200 \<lparr> oid = 9, userId = 1, icon = None, amount = - 25, date = 1736899200000,
                    createdAt = 1000, updatedAt = 1000, source = ''Refund'' \<rparr>,
        db_empty\<lparr>incomes := [\<lparr> oid = 9, userId = 1, icon = None, amount = - 25,
                                date = 1736899200000, createdAt = 1000, updatedAt = 1000,
                                source = ''Refund'' \<rparr>]\<rparr>)"
    by simp
  from c10_negative_amount[where req = ?g and a = "- 25" and L = lib_demo and now = 1000
        and newId = 9 and d = db_empty] hg cg
  have b: "addExpense lib_demo 1000 9 ?g db_empty = (Message 500 ''Server Error'', db_empty)"
    by blast
  from c10_negative_amount[where req = ?z and L = lib_demo and now = 1000 and newId = 9
        and d = db_empty] z
  have e: "addExpense lib_demo 1000 9 ?z db_empty = (Message 400 ''All fields are required'', db_empty)"
    by blast
  from a b e show ?thesis by simp
qed

end
